theory Spec2Isabelle
  imports Main
begin

section \<open>Request bodies\<close>

text \<open>
  The body parsers (\<open>express.urlencoded\<close>, \<open>express.json\<close>) hand the handler an
  arbitrary JavaScript value in \<open>req.body\<close>. A string is the list of its code units;
  \<open>length\<close> is JavaScript's \<open>.length\<close>. An object is the list of its own properties;
  a property read takes the first entry for the key and gives \<open>undefined\<close> when there is
  none. The payload of a number is never inspected by the code modelled here.
\<close>

datatype jsval =
    JUndefined
  | JNull
  | JBool bool
  | JNum int
  | JStr string
  | JArr "jsval list"
  | JObj "(string \<times> jsval) list"

definition own_prop :: "(string \<times> jsval) list \<Rightarrow> string \<Rightarrow> jsval" where
  "own_prop kvs k = (case map_of kvs k of Some v \<Rightarrow> v | None \<Rightarrow> JUndefined)"

text \<open>
  \<open>contato.nome\<close> on the raw body: a property read on \<open>undefined\<close> or \<open>null\<close> throws a
  TypeError (\<open>None\<close>); on any other non-object value the three keys the handler reads
  (\<open>nome\<close>, \<open>telefone\<close>, \<open>email\<close>) are not defined.
\<close>

fun read_member :: "jsval \<Rightarrow> string \<Rightarrow> jsval option" where
  "read_member JUndefined k = None"
| "read_member JNull k = None"
| "read_member (JObj kvs) k = Some (own_prop kvs k)"
| "read_member v k = Some JUndefined"

section \<open>The telephone pattern\<close>

text \<open>
  The source's regular expression is \<open>/^\(\d{2}\) \d{5}-\d{4}$/\<close>: no flags, anchored
  at both ends, a sequence of single-character atoms. Without the \<open>u\<close> flag \<open>\d\<close> is
  exactly \<open>[0-9]\<close>; without the \<open>m\<close> flag \<open>$\<close> is the end of the input only.
\<close>

datatype atom = Lit char | Digit

fun atom_matches :: "atom \<Rightarrow> char \<Rightarrow> bool" where
  "atom_matches (Lit a) c = (c = a)"
| "atom_matches Digit c = (c \<in> set ''0123456789'')"

text \<open>\<open>^ a1 ... an $\<close> against the whole input.\<close>

fun matches_exactly :: "atom list \<Rightarrow> string \<Rightarrow> bool" where
  "matches_exactly [] s = (s = [])"
| "matches_exactly (a # as) [] = False"
| "matches_exactly (a # as) (c # cs) = (atom_matches a c \<and> matches_exactly as cs)"

definition telefone_regex :: "atom list" where
  "telefone_regex =
     [Lit (CHR ''('')] @ replicate 2 Digit @ [Lit (CHR '')''), Lit (CHR '' '')] @
     replicate 5 Digit @ [Lit (CHR ''-'')] @ replicate 4 Digit"

definition regex_test :: "atom list \<Rightarrow> string \<Rightarrow> bool" where
  "regex_test r s = matches_exactly r s"

section \<open>The Zod schema\<close>

text \<open>
  Zod is a dependency, not part of the repository. What the schema needs of it is taken
  as a parameter: the library's e-mail test and the message it gives a value of the wrong
  type when the schema supplies none (the expected type's name and the received value).
\<close>

record zod =
  email_test :: "string \<Rightarrow> bool"
  default_message :: "string \<Rightarrow> jsval \<Rightarrow> string"

datatype issue = Issue (path: "string list") (message: string)

datatype 'a safe_parse = Success 'a | Failure "issue list"

text \<open>
  \<open>z.string(...)\<close> followed by checks: a value that is not a string gives the type
  message alone; a string runs every check and keeps the messages of those that fail.
\<close>

definition z_string :: "(jsval \<Rightarrow> string) \<Rightarrow> (string \<Rightarrow> string list) \<Rightarrow> jsval \<Rightarrow> string list" where
  "z_string type_message checks v =
     (case v of JStr s \<Rightarrow> checks s | _ \<Rightarrow> [type_message v])"

definition z_min :: "nat \<Rightarrow> string \<Rightarrow> string \<Rightarrow> string list" where
  "z_min n msg s = (if length s < n then [msg] else [])"

definition z_email :: "zod \<Rightarrow> string \<Rightarrow> string \<Rightarrow> string list" where
  "z_email lib msg s = (if email_test lib s then [] else [msg])"

definition z_regex :: "atom list \<Rightarrow> string \<Rightarrow> string \<Rightarrow> string list" where
  "z_regex r msg s = (if regex_test r s then [] else [msg])"

text \<open>The messages of the source; the accented letters are single code units.\<close>

definition msg_nome_obrigatorio :: string where
  "msg_nome_obrigatorio = ''Campo nome '' @ [CHR 0xE9] @ '' obrigat'' @ [CHR 0xF3] @ ''rio''"

definition msg_nome_minimo :: string where
  "msg_nome_minimo = ''O nome deve ter no m'' @ [CHR 0xED] @ ''nimo 03 caracteres.''"

definition msg_email_obrigatorio :: string where
  "msg_email_obrigatorio = ''Campo e-mail '' @ [CHR 0xE9] @ '' obrigat'' @ [CHR 0xF3] @ ''rio.''"

definition msg_email_valido :: string where
  "msg_email_valido = ''Deve ser um e-mail v'' @ [CHR 0xE1] @ ''lido.''"

definition msg_telefone_valido :: string where
  "msg_telefone_valido = ''Deve enviar um telefone v'' @ [CHR 0xE1] @ ''lido''"

definition nome_schema :: "jsval \<Rightarrow> string list" where
  "nome_schema = z_string (\<lambda>_. msg_nome_obrigatorio) (z_min 3 msg_nome_minimo)"

definition email_schema :: "zod \<Rightarrow> jsval \<Rightarrow> string list" where
  "email_schema lib = z_string (\<lambda>_. msg_email_obrigatorio) (z_email lib msg_email_valido)"

definition telefone_schema :: "zod \<Rightarrow> jsval \<Rightarrow> string list" where
  "telefone_schema lib =
     z_string (default_message lib ''string'') (z_regex telefone_regex msg_telefone_valido)"

record contato_dados =
  dados_nome :: jsval
  dados_email :: jsval
  dados_telefone :: jsval

definition field_issues :: "string \<Rightarrow> string list \<Rightarrow> issue list" where
  "field_issues key msgs = map (Issue [key]) msgs"

text \<open>
  \<open>contatoSchema.safeParse\<close>: \<open>z.object\<close> rejects a value that is not an object with
  one issue; otherwise it parses the keys of the shape in declaration order (\<open>nome\<close>,
  \<open>email\<close>, \<open>telefone\<close>), each against the property read from the input, and the
  issues accumulate in that order. Keys outside the shape are dropped from the data and
  raise no issue.
\<close>

definition contatoSchema_safeParse :: "zod \<Rightarrow> jsval \<Rightarrow> contato_dados safe_parse" where
  "contatoSchema_safeParse lib input =
     (case input of
        JObj kvs \<Rightarrow>
          (let issues =
                 field_issues ''nome'' (nome_schema (own_prop kvs ''nome'')) @
                 field_issues ''email'' (email_schema lib (own_prop kvs ''email'')) @
                 field_issues ''telefone'' (telefone_schema lib (own_prop kvs ''telefone''))
           in if issues = []
              then Success \<lparr>dados_nome = own_prop kvs ''nome'', dados_email = own_prop kvs ''email'',
                            dados_telefone = own_prop kvs ''telefone''\<rparr>
              else Failure issues)
      | _ \<Rightarrow> Failure [Issue [] (default_message lib ''object'' input)])"

section \<open>The Contato model and the server's state\<close>

text \<open>
  \<open>Contato\<close> comes from \<open>./models\<close>, which loads the model files of its directory; the
  file that defines \<open>Contato\<close> and the ORM under it are not part of the source at hand.
  The handlers are therefore modelled over any pair of operations: each takes the state of
  the database and gives the next state with either the error the promise rejects with
  (\<open>Inl\<close>, its detail a string) or the value it resolves to.
\<close>

record novo_contato =
  nome :: jsval
  telefone :: jsval
  email :: jsval

record ('db, 'r) contato_model =
  create :: "novo_contato \<Rightarrow> 'db \<Rightarrow> (string + 'r) \<times> 'db"
  findAll :: "'db \<Rightarrow> (string + 'r list) \<times> 'db"

datatype store_call = Create novo_contato | FindAll

text \<open>
  What a request can change: the database, the operations invoked on the model (kept in
  order), the lines printed by \<open>console.error\<close> (label and error detail) and the lines
  of \<open>access.log\<close>.
\<close>

record 'db world =
  db :: 'db
  store_calls :: "store_call list"
  console :: "(string \<times> string) list"
  access_log :: "string list"

text \<open>
  \<open>res.status(n).send(text)\<close>, \<open>res.send(text)\<close> (status 200) and
  \<open>res.render(view, locals)\<close>. An \<open>async\<close> handler either has sent its response or
  its promise rejects with nothing sent.
\<close>

datatype 'r response = Send nat string | Render string "(string \<times> 'r list) list"

datatype fault = TypeError | StoreError string

datatype 'r outcome = Responded "'r response" | Rejected fault

section \<open>The request handlers\<close>

fun join :: "string \<Rightarrow> string list \<Rightarrow> string" where
  "join sep [] = []"
| "join sep [x] = x"
| "join sep (x # y # ys) = x @ sep @ join sep (y # ys)"

text \<open>\<open>app.get("/")\<close>\<close>

definition get_raiz :: "'db world \<Rightarrow> 'r outcome \<times> 'db world" where
  "get_raiz w = (Responded (Render ''index'' []), w)"

text \<open>
  \<open>app.post("/")\<close>. The call of \<open>Contato.create\<close> is awaited outside any \<open>try\<close>: when
  it rejects, the handler's promise rejects and no \<open>res\<close> method has been called.
\<close>

definition post_raiz ::
  "zod \<Rightarrow> ('db, 'r) contato_model \<Rightarrow> jsval \<Rightarrow> 'db world \<Rightarrow> 'r outcome \<times> 'db world" where
  "post_raiz lib Contato contato w =
     (case contatoSchema_safeParse lib contato of
        Failure issues \<Rightarrow>
          (Responded (Send 400 (join ''; '' (map message issues))), w)
      | Success _ \<Rightarrow>
          (case (read_member contato ''nome'', read_member contato ''telefone'',
                 read_member contato ''email'') of
             (Some n, Some t, Some e) \<Rightarrow>
               (let args = \<lparr>nome = n, telefone = t, email = e\<rparr>;
                    (r, db') = create Contato args (db w);
                    w' = w\<lparr>db := db', store_calls := store_calls w @ [Create args]\<rparr>
                in case r of
                     Inl err \<Rightarrow> (Rejected (StoreError err), w')
                   | Inr _ \<Rightarrow> (Responded (Send 200 ''Contato salvo com sucesso''), w'))
           | _ \<Rightarrow> (Rejected TypeError, w)))"

text \<open>
  \<open>app.get("/contatos")\<close>. The handler reads nothing of the request. What the view
  engine makes of \<open>res.render\<close> is outside the model: the response is the view's name
  with its locals.
\<close>

definition get_contatos :: "('db, 'r) contato_model \<Rightarrow> 'db world \<Rightarrow> 'r outcome \<times> 'db world" where
  "get_contatos Contato w =
     (let (r, db') = findAll Contato (db w);
          w' = w\<lparr>db := db', store_calls := store_calls w @ [FindAll]\<rparr>
      in case r of
           Inr contatos \<Rightarrow> (Responded (Render ''contatos'' [(''contatos'', contatos)]), w')
         | Inl err \<Rightarrow>
             (Responded (Send 500 ''Erro ao buscar contatos.''),
              w'\<lparr>console := console w' @ [(''Erro ao buscar contatos:'', err)]\<rparr>))"

section \<open>The access log middleware\<close>

record request =
  req_method :: string
  req_originalUrl :: string
  req_body :: jsval

definition log_entry :: "string \<Rightarrow> request \<Rightarrow> string" where
  "log_entry now req = now @ '' - '' @ req_method req @ '' '' @ req_originalUrl req @ [CHR 0x0A]"

text \<open>
  \<open>fs.appendFile\<close> with its callback: \<open>now\<close> is \<open>new Date().toISOString()\<close> and
  \<open>append_error\<close> is the \<open>err\<close> the callback receives (\<open>None\<close> when the line was
  written).
\<close>

definition append_access_log :: "string \<Rightarrow> string option \<Rightarrow> request \<Rightarrow> 'db world \<Rightarrow> 'db world" where
  "append_access_log now append_error req w =
     (case append_error of
        None \<Rightarrow> w\<lparr>access_log := access_log w @ [log_entry now req]\<rparr>
      | Some err \<Rightarrow> w\<lparr>console := console w @ [(''Erro ao escrever no arquivo de log:'', err)]\<rparr>)"

text \<open>
  The routes the source registers. Which one a request reaches is Express's routing, taken
  as given.
\<close>

datatype route = GetRaiz | PostRaiz | GetContatos

definition handle_route ::
  "zod \<Rightarrow> ('db, 'r) contato_model \<Rightarrow> route \<Rightarrow> request \<Rightarrow> 'db world \<Rightarrow> 'r outcome \<times> 'db world" where
  "handle_route lib Contato rt req w =
     (case rt of
        GetRaiz \<Rightarrow> get_raiz w
      | PostRaiz \<Rightarrow> post_raiz lib Contato (req_body req) w
      | GetContatos \<Rightarrow> get_contatos Contato w)"

text \<open>
  The middleware starts the append and calls \<open>next()\<close> whatever becomes of it; the
  callback only prints. The model lets the append finish before the handler runs.
\<close>

definition app ::
  "zod \<Rightarrow> ('db, 'r) contato_model \<Rightarrow> string \<Rightarrow> string option \<Rightarrow> route \<Rightarrow> request \<Rightarrow>
   'db world \<Rightarrow> 'r outcome \<times> 'db world" where
  "app lib Contato now append_error rt req w =
     handle_route lib Contato rt req (append_access_log now append_error req w)"

section \<open>The specification's vocabulary\<close>

text \<open>
  The shape the specification gives for a telephone number, in its own words: an opening
  parenthesis, two digits, a closing parenthesis, a space, five digits, a hyphen, four
  digits, and nothing else.
\<close>

definition spec_phone_shape :: "string \<Rightarrow> bool" where
  "spec_phone_shape s =
     (\<exists>a b c. s = ''('' @ a @ '') '' @ b @ ''-'' @ c \<and>
        length a = 2 \<and> length b = 5 \<and> length c = 4 \<and>
        set a \<union> set b \<union> set c \<subseteq> set ''0123456789'')"

text \<open>
  A field of a submitted input: the property of an object body. A body that is not an
  object has no fields, so each of them is absent.
\<close>

fun submitted :: "jsval \<Rightarrow> string \<Rightarrow> jsval" where
  "submitted (JObj kvs) k = own_prop kvs k"
| "submitted v k = JUndefined"

text \<open>
  The three conditions as the specification words them: the name is a string of at least
  three characters, the e-mail is a string that is a syntactically valid address, the
  telephone is a string that matches the pattern.
\<close>

definition name_ok :: "jsval \<Rightarrow> bool" where
  "name_ok v = (case v of JStr s \<Rightarrow> 3 \<le> length s | _ \<Rightarrow> False)"

definition email_ok :: "zod \<Rightarrow> jsval \<Rightarrow> bool" where
  "email_ok lib v = (case v of JStr s \<Rightarrow> email_test lib s | _ \<Rightarrow> False)"

definition phone_ok :: "jsval \<Rightarrow> bool" where
  "phone_ok v = (case v of JStr s \<Rightarrow> regex_test telefone_regex s | _ \<Rightarrow> False)"

definition all_fields_pass :: "zod \<Rightarrow> jsval \<Rightarrow> bool" where
  "all_fields_pass lib contato =
     (name_ok (submitted contato ''nome'') \<and> email_ok lib (submitted contato ''email'') \<and>
      phone_ok (submitted contato ''telefone''))"

section \<open>A store as the specification describes it\<close>

text \<open>
  Modelled from the spec: the \<open>Contato\<close> model (its definition file and the ORM are not
  in the source). Section 4.2: \<open>create\<close> inserts a new row, assigns its identity and
  returns the stored representation, or fails with a storage error that is surfaced to the
  caller; \<open>findAll\<close> returns every stored contact, in insertion order. A storage failure
  is simulated by the argument \<open>failure\<close>; a failed \<open>create\<close> leaves the table as it
  was. The timestamps the store assigns are left out: nothing reads them.
\<close>

record contato_row =
  row_id :: nat
  row_nome :: jsval
  row_telefone :: jsval
  row_email :: jsval

definition spec_create ::
  "string option \<Rightarrow> novo_contato \<Rightarrow> contato_row list \<Rightarrow> (string + contato_row) \<times> contato_row list" where
  "spec_create failure a rows =
     (case failure of
        Some err \<Rightarrow> (Inl err, rows)
      | None \<Rightarrow>
          (let r = \<lparr>row_id = Suc (length rows), row_nome = nome a,
                    row_telefone = telefone a, row_email = email a\<rparr>
           in (Inr r, rows @ [r])))"

definition spec_findAll ::
  "string option \<Rightarrow> contato_row list \<Rightarrow> (string + contato_row list) \<times> contato_row list" where
  "spec_findAll failure rows =
     (case failure of Some err \<Rightarrow> (Inl err, rows) | None \<Rightarrow> (Inr rows, rows))"

definition spec_store :: "string option \<Rightarrow> (contato_row list, contato_row) contato_model" where
  "spec_store failure = \<lparr>create = spec_create failure, findAll = spec_findAll failure\<rparr>"

text \<open>What the round trip compares: the three fields of a stored row and of a submitted body.\<close>

definition row_fields :: "contato_row \<Rightarrow> jsval \<times> jsval \<times> jsval" where
  "row_fields r = (row_nome r, row_email r, row_telefone r)"

definition submitted_fields :: "jsval \<Rightarrow> jsval \<times> jsval \<times> jsval" where
  "submitted_fields contato =
     (submitted contato ''nome'', submitted contato ''email'', submitted contato ''telefone'')"

text \<open>A run of submissions, each with the storage failure simulated for it, if any.\<close>

fun submit_all :: "zod \<Rightarrow> (jsval \<times> string option) list \<Rightarrow> contato_row list world \<Rightarrow> contato_row list world" where
  "submit_all lib [] w = w"
| "submit_all lib ((contato, failure) # rest) w =
     submit_all lib rest (snd (post_raiz lib (spec_store failure) contato w))"

definition fresh_world :: "contato_row list world" where
  "fresh_world = \<lparr>db = [], store_calls = [], console = [], access_log = []\<rparr>"

section \<open>Sample inputs\<close>

text \<open>
  A stand-in for the library in the examples below: an e-mail test that asks for an
  \<open>@\<close> sign and the message Zod 3 gives a missing value.
\<close>

definition zod_sample :: zod where
  "zod_sample = \<lparr>email_test = (\<lambda>s. CHR ''@'' \<in> set s), default_message = (\<lambda>expected v. ''Required'')\<rparr>"

definition ana :: jsval where
  "ana = JObj [(''nome'', JStr ''Ana Silva''), (''email'', JStr ''ana@example.com''),
               (''telefone'', JStr ''(11) 91234-5678'')]"

definition ana_extra :: jsval where
  "ana_extra = JObj [(''nome'', JStr ''Ana Silva''), (''admin'', JBool True),
                     (''email'', JStr ''ana@example.com''), (''telefone'', JStr ''(11) 91234-5678'')]"

definition al :: jsval where
  "al = JObj [(''nome'', JStr ''Al''), (''email'', JStr ''bad''), (''telefone'', JStr ''123'')]"

definition bia :: jsval where
  "bia = JObj [(''telefone'', JStr ''(21) 99876-5432''), (''nome'', JStr ''Bia Souza''),
               (''email'', JStr ''bia@example.org'')]"

definition ana_sem_parenteses :: jsval where
  "ana_sem_parenteses =
     JObj [(''nome'', JStr ''Ana Silva''), (''email'', JStr ''ana@example.com''),
           (''telefone'', JStr ''11 91234-5678'')]"

section \<open>Facts about the telephone pattern\<close>

lemma matches_lit:
  "matches_exactly (Lit x # r) s \<longleftrightarrow> (\<exists>t. s = x # t \<and> matches_exactly r t)"
  by (cases s) auto

lemma matches_digits_app:
  "length d = n \<Longrightarrow> set d \<subseteq> set ''0123456789'' \<Longrightarrow>
   matches_exactly (replicate n Digit @ r) (d @ t) = matches_exactly r t"
  by (induction d arbitrary: n) auto

lemma matches_digits:
  "matches_exactly (replicate n Digit @ r) s \<longleftrightarrow>
     (\<exists>d t. s = d @ t \<and> length d = n \<and> set d \<subseteq> set ''0123456789'' \<and> matches_exactly r t)"
proof
  assume "matches_exactly (replicate n Digit @ r) s"
  then show "\<exists>d t. s = d @ t \<and> length d = n \<and> set d \<subseteq> set ''0123456789'' \<and> matches_exactly r t"
  proof (induction n arbitrary: s)
    case 0
    then show ?case by simp
  next
    case (Suc n)
    then obtain c cs where s: "s = c # cs" by (cases s) auto
    with Suc.prems have c: "c \<in> set ''0123456789''"
      and m: "matches_exactly (replicate n Digit @ r) cs"
      by simp_all
    from Suc.IH [OF m] obtain d t where
      "cs = d @ t" "length d = n" "set d \<subseteq> set ''0123456789''" "matches_exactly r t"
      by blast
    with c s have "s = (c # d) @ t \<and> length (c # d) = Suc n \<and>
        set (c # d) \<subseteq> set ''0123456789'' \<and> matches_exactly r t"
      by simp
    then show ?case by blast
  qed
next
  assume "\<exists>d t. s = d @ t \<and> length d = n \<and> set d \<subseteq> set ''0123456789'' \<and> matches_exactly r t"
  then show "matches_exactly (replicate n Digit @ r) s"
    using matches_digits_app by blast
qed

lemma matches_digits_end:
  "matches_exactly (replicate n Digit) s \<longleftrightarrow> (length s = n \<and> set s \<subseteq> set ''0123456789'')"
  using matches_digits [of n "[]" s] by auto

lemma shape_matches: "spec_phone_shape s \<Longrightarrow> regex_test telefone_regex s"
  unfolding regex_test_def telefone_regex_def spec_phone_shape_def
  apply (elim exE conjE)
  apply (simp add: matches_digits_app matches_digits_end del: set_simps)
  done

lemma matches_shape: "regex_test telefone_regex s \<Longrightarrow> spec_phone_shape s"
  unfolding regex_test_def telefone_regex_def spec_phone_shape_def
  apply (simp only: append_Cons append_Nil matches_lit matches_digits matches_digits_end)
  apply (elim exE conjE)
  apply (simp del: set_simps)
  apply blast
  done

section \<open>Facts about the schema\<close>

lemma nome_schema_empty: "(nome_schema v = []) = name_ok v"
  by (cases v) (simp_all add: nome_schema_def z_string_def z_min_def name_ok_def)

lemma email_schema_empty: "(email_schema lib v = []) = email_ok lib v"
  by (cases v) (simp_all add: email_schema_def z_string_def z_email_def email_ok_def)

lemma telefone_schema_empty: "(telefone_schema lib v = []) = phone_ok v"
  by (cases v) (simp_all add: telefone_schema_def z_string_def z_regex_def phone_ok_def)

lemma nome_schema_short: "length (nome_schema v) \<le> 1"
  by (cases v) (simp_all add: nome_schema_def z_string_def z_min_def)

lemma email_schema_short: "length (email_schema lib v) \<le> 1"
  by (cases v) (simp_all add: email_schema_def z_string_def z_email_def)

lemma telefone_schema_short: "length (telefone_schema lib v) \<le> 1"
  by (cases v) (simp_all add: telefone_schema_def z_string_def z_regex_def)

lemma name_ok_JStr: "name_ok v \<Longrightarrow> \<exists>s. v = JStr s"
  by (cases v) (simp_all add: name_ok_def)

lemma email_ok_JStr: "email_ok lib v \<Longrightarrow> \<exists>s. v = JStr s"
  by (cases v) (simp_all add: email_ok_def)

lemma phone_ok_JStr: "phone_ok v \<Longrightarrow> \<exists>s. v = JStr s"
  by (cases v) (simp_all add: phone_ok_def)

lemma message_field_issues: "map message (field_issues key msgs) = msgs"
  by (simp add: field_issues_def comp_def)

lemma safeParse_object:
  "contatoSchema_safeParse lib (JObj kvs) =
     (if all_fields_pass lib (JObj kvs)
      then Success \<lparr>dados_nome = own_prop kvs ''nome'', dados_email = own_prop kvs ''email'',
                    dados_telefone = own_prop kvs ''telefone''\<rparr>
      else Failure (field_issues ''nome'' (nome_schema (own_prop kvs ''nome'')) @
                    field_issues ''email'' (email_schema lib (own_prop kvs ''email'')) @
                    field_issues ''telefone'' (telefone_schema lib (own_prop kvs ''telefone''))))"
  by (simp add: contatoSchema_safeParse_def all_fields_pass_def field_issues_def Let_def
      nome_schema_empty email_schema_empty telefone_schema_empty)

lemma safeParse_not_object:
  "\<forall>kvs. contato \<noteq> JObj kvs \<Longrightarrow>
   contatoSchema_safeParse lib contato = Failure [Issue [] (default_message lib ''object'' contato)]"
  by (cases contato) (simp_all add: contatoSchema_safeParse_def)

lemma not_object_fails: "\<forall>kvs. contato \<noteq> JObj kvs \<Longrightarrow> \<not> all_fields_pass lib contato"
  by (cases contato) (simp_all add: all_fields_pass_def name_ok_def)

lemma post_raiz_invalid:
  assumes "\<not> all_fields_pass lib contato"
  shows "\<exists>issues. contatoSchema_safeParse lib contato = Failure issues \<and>
           post_raiz lib Contato contato w = (Responded (Send 400 (join ''; '' (map message issues))), w)"
proof (cases "\<exists>kvs. contato = JObj kvs")
  case True
  then obtain kvs where "contato = JObj kvs" by blast
  with assms show ?thesis by (simp add: post_raiz_def safeParse_object)
next
  case False
  then show ?thesis by (simp add: post_raiz_def safeParse_not_object)
qed

lemma post_raiz_valid:
  assumes "all_fields_pass lib contato"
  shows "post_raiz lib Contato contato w =
     (let args = \<lparr>nome = submitted contato ''nome'', telefone = submitted contato ''telefone'',
                   email = submitted contato ''email''\<rparr>;
          w' = w\<lparr>db := snd (create Contato args (db w)), store_calls := store_calls w @ [Create args]\<rparr>
      in case fst (create Contato args (db w)) of
           Inl err \<Rightarrow> (Rejected (StoreError err), w')
         | Inr row \<Rightarrow> (Responded (Send 200 ''Contato salvo com sucesso''), w'))"
proof -
  from assms obtain kvs where "contato = JObj kvs"
    using not_object_fails by blast
  with assms show ?thesis
    by (simp add: post_raiz_def safeParse_object Let_def split: prod.splits sum.splits)
qed

lemma all_fields_pass_strings:
  assumes "all_fields_pass lib contato"
  shows "\<exists>n e t. submitted contato ''nome'' = JStr n \<and> submitted contato ''email'' = JStr e \<and>
           submitted contato ''telefone'' = JStr t"
  using assms name_ok_JStr email_ok_JStr phone_ok_JStr
  unfolding all_fields_pass_def by blast

lemma safeParse_valid:
  assumes "all_fields_pass lib contato"
  shows "contatoSchema_safeParse lib contato =
           Success \<lparr>dados_nome = submitted contato ''nome'', dados_email = submitted contato ''email'',
                    dados_telefone = submitted contato ''telefone''\<rparr>"
proof -
  from assms obtain kvs where "contato = JObj kvs"
    using not_object_fails by blast
  with assms show ?thesis by (simp add: safeParse_object)
qed

lemma handle_route_frame:
  "fst (handle_route lib Contato rt req (w\<lparr>console := c, access_log := l\<rparr>)) =
   fst (handle_route lib Contato rt req w)"
proof (cases rt)
  case GetRaiz
  then show ?thesis by (simp add: handle_route_def get_raiz_def)
next
  case PostRaiz
  show ?thesis
  proof (cases "all_fields_pass lib (req_body req)")
    case True
    then show ?thesis
      using PostRaiz by (simp add: handle_route_def post_raiz_valid Let_def split: sum.splits)
  next
    case False
    then show ?thesis
      using PostRaiz post_raiz_invalid [OF False, where Contato = Contato and w = w]
        post_raiz_invalid [OF False, where Contato = Contato and w = "w\<lparr>console := c, access_log := l\<rparr>"]
      by (auto simp add: handle_route_def)
  qed
next
  case GetContatos
  then show ?thesis
    by (simp add: handle_route_def get_contatos_def Let_def split: prod.splits sum.splits)
qed

lemma append_access_log_frame:
  "\<exists>c l. append_access_log now append_error req w = w\<lparr>console := c, access_log := l\<rparr>"
proof (cases append_error)
  case None
  have "w\<lparr>access_log := access_log w @ [log_entry now req]\<rparr> =
        w\<lparr>console := console w, access_log := access_log w @ [log_entry now req]\<rparr>"
    by simp
  with None show ?thesis unfolding append_access_log_def by (simp only: option.case) blast
next
  case (Some err)
  have "w\<lparr>console := console w @ [(''Erro ao escrever no arquivo de log:'', err)]\<rparr> =
        w\<lparr>console := console w @ [(''Erro ao escrever no arquivo de log:'', err)],
          access_log := access_log w\<rparr>"
    by simp
  with Some show ?thesis unfolding append_access_log_def by (simp only: option.case) blast
qed

lemma ana_passes: "all_fields_pass zod_sample ana"
  by (simp add: all_fields_pass_def ana_def own_prop_def name_ok_def email_ok_def phone_ok_def
      zod_sample_def regex_test_def telefone_regex_def eval_nat_numeral)


lemma al_fails: "\<not> all_fields_pass lib al"
  by (simp add: all_fields_pass_def al_def own_prop_def name_ok_def)

lemma post_raiz_spec_store_db:
  assumes "all_fields_pass lib contato"
  shows "map row_fields (db (snd (post_raiz lib (spec_store None) contato w))) =
           map row_fields (db w) @ [submitted_fields contato]"
  by (simp add: post_raiz_valid [OF assms] Let_def spec_store_def spec_create_def
      row_fields_def submitted_fields_def)

lemma submit_all_rows:
  assumes "\<forall>s\<in>set subs. snd s = None \<and> all_fields_pass lib (fst s)"
  shows "map row_fields (db (submit_all lib subs w)) =
           map row_fields (db w) @ map (\<lambda>s. submitted_fields (fst s)) subs"
  using assms
proof (induction subs arbitrary: w)
  case Nil
  then show ?case by simp
next
  case (Cons s subs)
  obtain contato failure where s: "s = (contato, failure)" by (cases s)
  with Cons.prems have ok: "failure = None" "all_fields_pass lib contato"
    and rest: "\<forall>s\<in>set subs. snd s = None \<and> all_fields_pass lib (fst s)"
    by simp_all
  from Cons.IH [OF rest] post_raiz_spec_store_db [OF ok(2)] s ok(1)
  show ?case by simp
qed


lemma bia_passes: "all_fields_pass zod_sample bia"
  by (simp add: all_fields_pass_def bia_def own_prop_def name_ok_def email_ok_def phone_ok_def
      zod_sample_def regex_test_def telefone_regex_def eval_nat_numeral)


section \<open>Submitting a contact\<close>

text \<open>
  C1. The claim: when the input passes validation and \<open>create\<close> fails, the handler answers
  500 with a generic message. The handler does otherwise: \<open>Contato.create\<close> is awaited outside
  any \<open>try\<close>, so for every valid input and every error \<open>err\<close> the store rejects with, the
  handler's promise rejects with that very error and no response has been sent, neither a 500
  nor any other. (The listing handler wraps its store call in \<open>try\<close>/\<open>catch\<close>; this one
  does not.)
\<close>

theorem create_failure_is_rejected:
  assumes "all_fields_pass lib contato"
    and "fst (create Contato \<lparr>nome = submitted contato ''nome'', telefone = submitted contato ''telefone'',
                              email = submitted contato ''email''\<rparr> (db w)) = Inl err"
  shows "fst (post_raiz lib Contato contato w) = Rejected (StoreError err) \<and>
         fst (post_raiz lib Contato contato w) \<noteq> Responded r"
  using assms(2) by (simp add: post_raiz_valid [OF assms(1)] Let_def)

theorem create_failure_is_rejected_witness:
  "all_fields_pass zod_sample ana \<and>
   fst (post_raiz zod_sample (spec_store (Some ''connect ECONNREFUSED'')) ana fresh_world) =
     Rejected (StoreError ''connect ECONNREFUSED'') \<and>
   fst (post_raiz zod_sample (spec_store (Some ''connect ECONNREFUSED'')) ana fresh_world) \<noteq>
     Responded (Send 500 ''Erro ao salvar contato.'')"
proof -
  have "fst (create (spec_store (Some ''connect ECONNREFUSED''))
               \<lparr>nome = submitted ana ''nome'', telefone = submitted ana ''telefone'',
                email = submitted ana ''email''\<rparr> (db fresh_world)) = Inl ''connect ECONNREFUSED''"
    by (simp add: spec_store_def spec_create_def)
  from create_failure_is_rejected [OF ana_passes this,
      where r = "Send 500 ''Erro ao salvar contato.''"] ana_passes
  show ?thesis by simp
qed

text \<open>
  C2. Whenever the name is absent, not a string or shorter than three characters, or the e-mail
  is absent, not a string or not a valid address, or the telephone does not match the pattern,
  the handler answers 400 and leaves the whole state as it was: \<open>create\<close> is not called and
  nothing is persisted. So a contact is stored only when all three fields pass together.
\<close>

theorem invalid_input_never_created:
  assumes "\<not> name_ok (submitted contato ''nome'') \<or> \<not> email_ok lib (submitted contato ''email'') \<or>
           \<not> phone_ok (submitted contato ''telefone'')"
  shows "\<exists>text. post_raiz lib Contato contato w = (Responded (Send 400 text), w)"
proof -
  from assms have "\<not> all_fields_pass lib contato" by (auto simp add: all_fields_pass_def)
  from post_raiz_invalid [OF this] show ?thesis by blast
qed

theorem invalid_input_never_created_witness:
  "\<not> name_ok (submitted al ''nome'') \<and>
   (\<exists>text. post_raiz zod_sample (spec_store None) al fresh_world =
      (Responded (Send 400 text), fresh_world))"
proof -
  have h: "\<not> name_ok (submitted al ''nome'')"
    by (simp add: al_def own_prop_def name_ok_def)
  then have "\<not> name_ok (submitted al ''nome'') \<or> \<not> email_ok zod_sample (submitted al ''email'') \<or>
           \<not> phone_ok (submitted al ''telefone'')" by blast
  from invalid_input_never_created [OF this] h show ?thesis by blast
qed

text \<open>
  C3, as amended. For every input whose three fields pass validation, the parsed data are
  the three submitted strings, the handler calls \<open>create\<close> exactly once, with exactly these
  values, and, when that call succeeds, it answers 200 with the success message.
\<close>

theorem valid_input_creates_once:
  assumes "all_fields_pass lib contato"
  shows "\<exists>n e t.
           submitted contato ''nome'' = JStr n \<and> submitted contato ''email'' = JStr e \<and>
           submitted contato ''telefone'' = JStr t \<and>
           contatoSchema_safeParse lib contato =
             Success \<lparr>dados_nome = JStr n, dados_email = JStr e, dados_telefone = JStr t\<rparr> \<and>
           store_calls (snd (post_raiz lib Contato contato w)) =
             store_calls w @ [Create \<lparr>nome = JStr n, telefone = JStr t, email = JStr e\<rparr>] \<and>
           db (snd (post_raiz lib Contato contato w)) =
             snd (create Contato \<lparr>nome = JStr n, telefone = JStr t, email = JStr e\<rparr> (db w)) \<and>
           (\<forall>row. fst (create Contato \<lparr>nome = JStr n, telefone = JStr t, email = JStr e\<rparr> (db w)) = Inr row \<longrightarrow>
              fst (post_raiz lib Contato contato w) = Responded (Send 200 ''Contato salvo com sucesso''))"
proof -
  from all_fields_pass_strings [OF assms] obtain n e t where
    f: "submitted contato ''nome'' = JStr n" "submitted contato ''email'' = JStr e"
       "submitted contato ''telefone'' = JStr t"
    by blast
  have p: "contatoSchema_safeParse lib contato =
             Success \<lparr>dados_nome = JStr n, dados_email = JStr e, dados_telefone = JStr t\<rparr>"
    using safeParse_valid [OF assms] f by simp
  have c: "store_calls (snd (post_raiz lib Contato contato w)) =
             store_calls w @ [Create \<lparr>nome = JStr n, telefone = JStr t, email = JStr e\<rparr>]"
    using f by (simp add: post_raiz_valid [OF assms] Let_def split: sum.splits)
  have d: "db (snd (post_raiz lib Contato contato w)) =
             snd (create Contato \<lparr>nome = JStr n, telefone = JStr t, email = JStr e\<rparr> (db w))"
    using f by (simp add: post_raiz_valid [OF assms] Let_def split: sum.splits)
  have r: "\<forall>row. fst (create Contato \<lparr>nome = JStr n, telefone = JStr t, email = JStr e\<rparr> (db w)) = Inr row \<longrightarrow>
              fst (post_raiz lib Contato contato w) = Responded (Send 200 ''Contato salvo com sucesso'')"
    using f by (simp add: post_raiz_valid [OF assms] Let_def)
  from f p c d r show ?thesis by blast
qed

theorem valid_input_creates_once_witness:
  "all_fields_pass zod_sample ana \<and>
   store_calls (snd (post_raiz zod_sample (spec_store None) ana fresh_world)) =
     [Create \<lparr>nome = JStr ''Ana Silva'', telefone = JStr ''(11) 91234-5678'',
              email = JStr ''ana@example.com''\<rparr>] \<and>
   fst (post_raiz zod_sample (spec_store None) ana fresh_world) =
     Responded (Send 200 ''Contato salvo com sucesso'')"
proof -
  from valid_input_creates_once [OF ana_passes, where Contato = "spec_store None" and w = fresh_world]
  obtain n e t where
    f: "submitted ana ''nome'' = JStr n" "submitted ana ''email'' = JStr e"
       "submitted ana ''telefone'' = JStr t"
    and c: "store_calls (snd (post_raiz zod_sample (spec_store None) ana fresh_world)) =
       store_calls fresh_world @ [Create \<lparr>nome = JStr n, telefone = JStr t, email = JStr e\<rparr>]"
    and r: "\<forall>row. fst (create (spec_store None) \<lparr>nome = JStr n, telefone = JStr t, email = JStr e\<rparr>
                          (db fresh_world)) = Inr row \<longrightarrow>
              fst (post_raiz zod_sample (spec_store None) ana fresh_world) =
                Responded (Send 200 ''Contato salvo com sucesso'')"
    by blast
  from f have "n = ''Ana Silva''" "e = ''ana@example.com''" "t = ''(11) 91234-5678''"
    by (simp_all add: ana_def own_prop_def)
  with c r ana_passes show ?thesis
    by (simp add: fresh_world_def spec_store_def spec_create_def Let_def)
qed

text \<open>
  C3 as first stated promises the 200 answer for every valid input. It fails when the store
  rejects the call: the input below passes validation and the answer is not the 200.
\<close>

theorem valid_input_not_always_200:
  "all_fields_pass zod_sample ana \<and>
   fst (post_raiz zod_sample (spec_store (Some ''ER_LOCK_DEADLOCK'')) ana fresh_world) \<noteq>
     Responded (Send 200 ''Contato salvo com sucesso'')"
  using ana_passes
  by (simp add: post_raiz_valid [OF ana_passes] Let_def spec_store_def spec_create_def)

section \<open>The validator\<close>

text \<open>
  C4. Each field is checked whatever becomes of the others: a field contributes no message
  exactly when it passes and one message otherwise, and when any field of an object body
  fails the issues are those of \<open>nome\<close>, then \<open>email\<close>, then \<open>telefone\<close>; the 400
  answer joins their messages with \<open>"; "\<close>. For \<open>{nome: "Al", email: "bad", telefone: "123"}\<close>
  (\<open>"bad"\<close> being no address for the library) that is exactly the name-length, the e-mail
  and the telephone message, in this order.
\<close>

theorem issues_in_field_order:
  "((nome_schema v = []) = name_ok v) \<and> length (nome_schema v) \<le> 1 \<and>
   ((email_schema lib v = []) = email_ok lib v) \<and> length (email_schema lib v) \<le> 1 \<and>
   ((telefone_schema lib v = []) = phone_ok v) \<and> length (telefone_schema lib v) \<le> 1 \<and>
   (\<not> all_fields_pass lib (JObj kvs) \<longrightarrow>
      contatoSchema_safeParse lib (JObj kvs) =
        Failure (field_issues ''nome'' (nome_schema (own_prop kvs ''nome'')) @
                 field_issues ''email'' (email_schema lib (own_prop kvs ''email'')) @
                 field_issues ''telefone'' (telefone_schema lib (own_prop kvs ''telefone''))) \<and>
      post_raiz lib Contato (JObj kvs) w =
        (Responded (Send 400 (join ''; ''
           (nome_schema (own_prop kvs ''nome'') @ email_schema lib (own_prop kvs ''email'') @
            telefone_schema lib (own_prop kvs ''telefone'')))), w)) \<and>
   (\<not> email_test lib ''bad'' \<longrightarrow>
      contatoSchema_safeParse lib al =
        Failure [Issue [''nome''] msg_nome_minimo, Issue [''email''] msg_email_valido,
                 Issue [''telefone''] msg_telefone_valido] \<and>
      post_raiz lib Contato al w =
        (Responded (Send 400
           (msg_nome_minimo @ ''; '' @ msg_email_valido @ ''; '' @ msg_telefone_valido)), w))"
proof -
  have general: "contatoSchema_safeParse lib (JObj kvs) =
        Failure (field_issues ''nome'' (nome_schema (own_prop kvs ''nome'')) @
                 field_issues ''email'' (email_schema lib (own_prop kvs ''email'')) @
                 field_issues ''telefone'' (telefone_schema lib (own_prop kvs ''telefone''))) \<and>
      post_raiz lib Contato (JObj kvs) w =
        (Responded (Send 400 (join ''; ''
           (nome_schema (own_prop kvs ''nome'') @ email_schema lib (own_prop kvs ''email'') @
            telefone_schema lib (own_prop kvs ''telefone'')))), w)"
    if "\<not> all_fields_pass lib (JObj kvs)"
    using that by (simp add: post_raiz_def safeParse_object message_field_issues)
  have nome_al: "nome_schema (JStr ''Al'') = [msg_nome_minimo]"
    by (simp add: nome_schema_def z_string_def z_min_def)
  have telefone_al: "telefone_schema lib (JStr ''123'') = [msg_telefone_valido]"
    by (simp add: telefone_schema_def z_string_def z_regex_def regex_test_def telefone_regex_def)
  have example: "contatoSchema_safeParse lib al =
        Failure [Issue [''nome''] msg_nome_minimo, Issue [''email''] msg_email_valido,
                 Issue [''telefone''] msg_telefone_valido] \<and>
      post_raiz lib Contato al w =
        (Responded (Send 400
           (msg_nome_minimo @ ''; '' @ msg_email_valido @ ''; '' @ msg_telefone_valido)), w)"
    if bad: "\<not> email_test lib ''bad''"
  proof -
    have email_al: "email_schema lib (JStr ''bad'') = [msg_email_valido]"
      using bad by (simp add: email_schema_def z_string_def z_email_def)
    have p: "contatoSchema_safeParse lib al =
        Failure [Issue [''nome''] msg_nome_minimo, Issue [''email''] msg_email_valido,
                 Issue [''telefone''] msg_telefone_valido]"
      by (simp add: contatoSchema_safeParse_def al_def own_prop_def nome_al email_al telefone_al
          field_issues_def)
    then show ?thesis by (simp add: post_raiz_def)
  qed
  from general example nome_schema_short [of v] email_schema_short [of lib v]
    telefone_schema_short [of lib v]
  show ?thesis
    by (simp add: nome_schema_empty email_schema_empty telefone_schema_empty)
qed

theorem issues_in_field_order_witness:
  "\<not> email_test zod_sample ''bad'' \<and>
   \<not> all_fields_pass zod_sample al \<and>
   contatoSchema_safeParse zod_sample al =
     Failure [Issue [''nome''] msg_nome_minimo, Issue [''email''] msg_email_valido,
              Issue [''telefone''] msg_telefone_valido] \<and>
   post_raiz zod_sample (spec_store None) al fresh_world =
     (Responded (Send 400
        (msg_nome_minimo @ ''; '' @ msg_email_valido @ ''; '' @ msg_telefone_valido)), fresh_world)"
proof -
  have bad: "\<not> email_test zod_sample ''bad''"
    by (simp add: zod_sample_def)
  from issues_in_field_order [where lib = zod_sample and Contato = "spec_store None" and w = fresh_world]
    bad al_fails [of zod_sample]
  show ?thesis by blast
qed

text \<open>
  C5. The telephone field of the schema passes exactly the strings of the shape
  \<open>(DD) DDDDD-DDDD\<close>, the whole string and nothing around it: for every other string the
  field fails with the telephone message, validation of a body that carries it fails with
  that issue, and the handler answers 400 and stores nothing. \<open>"11 91234-5678"\<close> (no
  parentheses) and \<open>"(11) 9123-45678"\<close> (digits grouped otherwise) are rejected, and so is
  a well-formed number with a space before or after it.
\<close>

theorem telefone_validation_exact:
  "((telefone_schema lib (JStr s) = []) = spec_phone_shape s) \<and>
   (regex_test telefone_regex s = spec_phone_shape s) \<and>
   (\<not> spec_phone_shape s \<longrightarrow> telefone_schema lib (JStr s) = [msg_telefone_valido]) \<and>
   (\<not> spec_phone_shape s \<and> own_prop kvs ''telefone'' = JStr s \<longrightarrow>
      (\<exists>issues. contatoSchema_safeParse lib (JObj kvs) = Failure issues \<and>
         Issue [''telefone''] msg_telefone_valido \<in> set issues) \<and>
      (\<exists>text. post_raiz lib Contato (JObj kvs) w = (Responded (Send 400 text), w))) \<and>
   telefone_schema lib (JStr ''11 91234-5678'') = [msg_telefone_valido] \<and>
   telefone_schema lib (JStr ''(11) 9123-45678'') = [msg_telefone_valido] \<and>
   telefone_schema lib (JStr '' (11) 91234-5678'') = [msg_telefone_valido] \<and>
   telefone_schema lib (JStr ''(11) 91234-5678 '') = [msg_telefone_valido] \<and>
   telefone_schema lib (JStr ''(11) 91234-5678'') = []"
proof -
  have shape: "regex_test telefone_regex s = spec_phone_shape s"
    using shape_matches matches_shape by blast
  have field: "telefone_schema lib (JStr t) =
      (if regex_test telefone_regex t then [] else [msg_telefone_valido])" for t
    by (simp add: telefone_schema_def z_string_def z_regex_def)
  have pass: "(telefone_schema lib (JStr s) = []) = spec_phone_shape s"
    using shape by (simp add: field)
  have fail: "telefone_schema lib (JStr s) = [msg_telefone_valido]" if "\<not> spec_phone_shape s"
    using that shape by (simp add: field)
  have body: "(\<exists>issues. contatoSchema_safeParse lib (JObj kvs) = Failure issues \<and>
         Issue [''telefone''] msg_telefone_valido \<in> set issues) \<and>
      (\<exists>text. post_raiz lib Contato (JObj kvs) w = (Responded (Send 400 text), w))"
    if bad: "\<not> spec_phone_shape s" and here: "own_prop kvs ''telefone'' = JStr s"
  proof -
    from bad shape here have "\<not> phone_ok (own_prop kvs ''telefone'')"
      by (simp add: phone_ok_def)
    then have no: "\<not> all_fields_pass lib (JObj kvs)"
      by (simp add: all_fields_pass_def)
    from no here fail [OF bad]
    have "\<exists>issues. contatoSchema_safeParse lib (JObj kvs) = Failure issues \<and>
         Issue [''telefone''] msg_telefone_valido \<in> set issues"
      by (simp add: safeParse_object field_issues_def)
    moreover from post_raiz_invalid [OF no]
    have "\<exists>text. post_raiz lib Contato (JObj kvs) w = (Responded (Send 400 text), w)"
      by blast
    ultimately show ?thesis by blast
  qed
  have e1: "telefone_schema lib (JStr ''11 91234-5678'') = [msg_telefone_valido]"
    by (simp add: field regex_test_def telefone_regex_def eval_nat_numeral)
  have e2: "telefone_schema lib (JStr ''(11) 9123-45678'') = [msg_telefone_valido]"
    by (simp add: field regex_test_def telefone_regex_def eval_nat_numeral)
  have e3: "telefone_schema lib (JStr '' (11) 91234-5678'') = [msg_telefone_valido]"
    by (simp add: field regex_test_def telefone_regex_def eval_nat_numeral)
  have e4: "telefone_schema lib (JStr ''(11) 91234-5678 '') = [msg_telefone_valido]"
    by (simp add: field regex_test_def telefone_regex_def eval_nat_numeral)
  have e5: "telefone_schema lib (JStr ''(11) 91234-5678'') = []"
    by (simp add: field regex_test_def telefone_regex_def eval_nat_numeral)
  from pass shape fail body e1 e2 e3 e4 e5 show ?thesis by blast
qed

theorem telefone_validation_exact_witness:
  "\<not> spec_phone_shape ''11 91234-5678'' \<and>
   contatoSchema_safeParse zod_sample ana_sem_parenteses =
     Failure [Issue [''telefone''] msg_telefone_valido] \<and>
   post_raiz zod_sample (spec_store None) ana_sem_parenteses fresh_world =
     (Responded (Send 400 msg_telefone_valido), fresh_world)"
proof -
  have "\<not> regex_test telefone_regex ''11 91234-5678''"
    by (simp add: regex_test_def telefone_regex_def eval_nat_numeral)
  then have bad: "\<not> spec_phone_shape ''11 91234-5678''"
    using shape_matches by blast
  have here: "own_prop [(''nome'', JStr ''Ana Silva''), (''email'', JStr ''ana@example.com''),
                 (''telefone'', JStr ''11 91234-5678'')] ''telefone'' = JStr ''11 91234-5678''"
    by (simp add: own_prop_def)
  from telefone_validation_exact [where lib = zod_sample and s = "''11 91234-5678''"
      and kvs = "[(''nome'', JStr ''Ana Silva''), (''email'', JStr ''ana@example.com''),
                 (''telefone'', JStr ''11 91234-5678'')]"
      and Contato = "spec_store None" and w = fresh_world] bad here
  have field: "telefone_schema zod_sample (JStr ''11 91234-5678'') = [msg_telefone_valido]"
    and "\<exists>text. post_raiz zod_sample (spec_store None) ana_sem_parenteses fresh_world =
           (Responded (Send 400 text), fresh_world)"
    unfolding ana_sem_parenteses_def by blast+
  have n: "nome_schema (JStr ''Ana Silva'') = []"
    by (simp add: nome_schema_def z_string_def z_min_def)
  have e: "email_schema zod_sample (JStr ''ana@example.com'') = []"
    by (simp add: email_schema_def z_string_def z_email_def zod_sample_def)
  have p: "contatoSchema_safeParse zod_sample ana_sem_parenteses =
     Failure [Issue [''telefone''] msg_telefone_valido]"
    by (simp add: contatoSchema_safeParse_def ana_sem_parenteses_def own_prop_def field n e
        field_issues_def)
  then have "post_raiz zod_sample (spec_store None) ana_sem_parenteses fresh_world =
     (Responded (Send 400 msg_telefone_valido), fresh_world)"
    by (simp add: post_raiz_def)
  with bad p show ?thesis by blast
qed

section \<open>Listing the contacts\<close>

text \<open>
  C6. The listing handler reads nothing of the request. It calls \<open>findAll\<close> once; when that
  succeeds it renders the view \<open>contatos\<close> with all the contacts returned; when it fails with
  any error \<open>err\<close>, the error goes to \<open>console.error\<close> only and the answer is 500 with a
  fixed text, the same for every error.
\<close>

theorem listing_outcomes:
  "handle_route lib Contato GetContatos req w = get_contatos Contato w \<and>
   (findAll Contato (db w) = (Inr contatos, db') \<longrightarrow>
      get_contatos Contato w =
        (Responded (Render ''contatos'' [(''contatos'', contatos)]),
         w\<lparr>db := db', store_calls := store_calls w @ [FindAll]\<rparr>)) \<and>
   (findAll Contato (db w) = (Inl err, db') \<longrightarrow>
      get_contatos Contato w =
        (Responded (Send 500 ''Erro ao buscar contatos.''),
         w\<lparr>db := db', store_calls := store_calls w @ [FindAll],
           console := console w @ [(''Erro ao buscar contatos:'', err)]\<rparr>))"
  by (simp add: handle_route_def get_contatos_def)

theorem listing_outcomes_witness:
  "get_contatos (spec_store None) fresh_world =
     (Responded (Render ''contatos'' [(''contatos'', [])]),
      fresh_world\<lparr>store_calls := [FindAll]\<rparr>) \<and>
   get_contatos (spec_store (Some ''ETIMEDOUT'')) fresh_world =
     (Responded (Send 500 ''Erro ao buscar contatos.''),
      fresh_world\<lparr>store_calls := [FindAll], console := [(''Erro ao buscar contatos:'', ''ETIMEDOUT'')]\<rparr>)"
proof -
  have ok: "findAll (spec_store None) (db fresh_world) = (Inr [], [])"
    by (simp add: spec_store_def spec_findAll_def fresh_world_def)
  have ko: "findAll (spec_store (Some ''ETIMEDOUT'')) (db fresh_world) = (Inl ''ETIMEDOUT'', [])"
    by (simp add: spec_store_def spec_findAll_def fresh_world_def)
  from listing_outcomes [where Contato = "spec_store None" and w = fresh_world
      and contatos = "[]" and db' = "[]"] ok
  have a: "get_contatos (spec_store None) fresh_world =
     (Responded (Render ''contatos'' [(''contatos'', [])]),
      fresh_world\<lparr>db := [], store_calls := store_calls fresh_world @ [FindAll]\<rparr>)"
    by blast
  from listing_outcomes [where Contato = "spec_store (Some ''ETIMEDOUT'')" and w = fresh_world
      and err = "''ETIMEDOUT''" and db' = "[]"] ko
  have b: "get_contatos (spec_store (Some ''ETIMEDOUT'')) fresh_world =
     (Responded (Send 500 ''Erro ao buscar contatos.''),
      fresh_world\<lparr>db := [], store_calls := store_calls fresh_world @ [FindAll],
        console := console fresh_world @ [(''Erro ao buscar contatos:'', ''ETIMEDOUT'')]\<rparr>)"
    by blast
  from a b show ?thesis by (simp add: fresh_world_def)
qed

text \<open>
  C8. After any number of submissions that all pass validation and are all stored, the
  listing renders exactly as many contacts as were submitted, and the name, e-mail and
  telephone of each are the values submitted for it, unchanged and in the order of
  submission.
\<close>

theorem listing_round_trip:
  assumes "\<forall>s\<in>set subs. snd s = None \<and> all_fields_pass lib (fst s)"
  shows "\<exists>rows.
           fst (get_contatos (spec_store None) (submit_all lib subs fresh_world)) =
             Responded (Render ''contatos'' [(''contatos'', rows)]) \<and>
           length rows = length subs \<and>
           map row_fields rows = map (\<lambda>s. submitted_fields (fst s)) subs"
proof -
  let ?rows = "db (submit_all lib subs fresh_world)"
  have m: "map row_fields ?rows = map (\<lambda>s. submitted_fields (fst s)) subs"
    using submit_all_rows [OF assms, of fresh_world] by (simp add: fresh_world_def)
  then have "length (map row_fields ?rows) = length (map (\<lambda>s. submitted_fields (fst s)) subs)"
    by simp
  then have l: "length ?rows = length subs" by simp
  have "fst (get_contatos (spec_store None) (submit_all lib subs fresh_world)) =
          Responded (Render ''contatos'' [(''contatos'', ?rows)])"
    by (simp add: get_contatos_def spec_store_def spec_findAll_def)
  with l m show ?thesis by blast
qed

theorem listing_round_trip_witness:
  "all_fields_pass zod_sample ana \<and> all_fields_pass zod_sample bia \<and>
   (\<exists>rows.
      fst (get_contatos (spec_store None)
             (submit_all zod_sample [(ana, None), (bia, None)] fresh_world)) =
        Responded (Render ''contatos'' [(''contatos'', rows)]) \<and>
      length rows = 2 \<and>
      map row_fields rows =
        [(JStr ''Ana Silva'', JStr ''ana@example.com'', JStr ''(11) 91234-5678''),
         (JStr ''Bia Souza'', JStr ''bia@example.org'', JStr ''(21) 99876-5432'')])"
proof -
  have "\<forall>s\<in>set [(ana, None), (bia, None)]. snd s = None \<and> all_fields_pass zod_sample (fst s)"
    using ana_passes bia_passes by simp
  from listing_round_trip [OF this] ana_passes bia_passes show ?thesis
    by (simp add: submitted_fields_def ana_def bia_def own_prop_def numeral_2_eq_2)
qed

section \<open>The access log and the response\<close>

text \<open>
  C7. Whether the append to \<open>access.log\<close> fails or not, the request reaches its handler and
  the outcome is the one the handler gives without the middleware; a failed append adds a
  line to the console and changes nothing else.
\<close>

theorem log_failure_leaves_response:
  "fst (app lib Contato now (Some err) rt req w) = fst (app lib Contato now None rt req w) \<and>
   fst (app lib Contato now append_error rt req w) = fst (handle_route lib Contato rt req w) \<and>
   append_access_log now (Some err) req w =
     w\<lparr>console := console w @ [(''Erro ao escrever no arquivo de log:'', err)]\<rparr>"
proof -
  have "fst (app lib Contato now ae rt req w) = fst (handle_route lib Contato rt req w)" for ae
    using append_access_log_frame [of now ae req w]
      handle_route_frame [where lib = lib and Contato = Contato and rt = rt and req = req and w = w]
    unfolding app_def by auto
  then show ?thesis by (simp add: append_access_log_def)
qed

section \<open>Fields outside the schema\<close>

text \<open>
  C10. Two object bodies that agree on \<open>nome\<close>, \<open>email\<close> and \<open>telefone\<close> and differ in
  anything else are validated alike and handled alike: the same response, the same call of
  \<open>create\<close> (whose argument has these three fields and no other) and the same state after.
\<close>

theorem only_three_fields_matter:
  assumes "own_prop kvs ''nome'' = own_prop kvs' ''nome''"
    and "own_prop kvs ''email'' = own_prop kvs' ''email''"
    and "own_prop kvs ''telefone'' = own_prop kvs' ''telefone''"
  shows "contatoSchema_safeParse lib (JObj kvs) = contatoSchema_safeParse lib (JObj kvs') \<and>
         post_raiz lib Contato (JObj kvs) w = post_raiz lib Contato (JObj kvs') w"
proof -
  have p: "contatoSchema_safeParse lib (JObj kvs) = contatoSchema_safeParse lib (JObj kvs')"
    using assms by (simp add: contatoSchema_safeParse_def)
  then have "post_raiz lib Contato (JObj kvs) w = post_raiz lib Contato (JObj kvs') w"
    using assms by (simp add: post_raiz_def split: safe_parse.splits)
  with p show ?thesis by blast
qed

theorem only_three_fields_matter_witness:
  "ana \<noteq> ana_extra \<and>
   contatoSchema_safeParse zod_sample ana = contatoSchema_safeParse zod_sample ana_extra \<and>
   post_raiz zod_sample (spec_store None) ana fresh_world =
     post_raiz zod_sample (spec_store None) ana_extra fresh_world"
proof -
  have "ana \<noteq> ana_extra" by (simp add: ana_def ana_extra_def)
  moreover have
    "own_prop [(''nome'', JStr ''Ana Silva''), (''email'', JStr ''ana@example.com''),
               (''telefone'', JStr ''(11) 91234-5678'')] k =
     own_prop [(''nome'', JStr ''Ana Silva''), (''admin'', JBool True),
               (''email'', JStr ''ana@example.com''), (''telefone'', JStr ''(11) 91234-5678'')] k"
    if "k = ''nome'' \<or> k = ''email'' \<or> k = ''telefone''" for k
    using that by (auto simp add: own_prop_def)
  then have "contatoSchema_safeParse zod_sample ana = contatoSchema_safeParse zod_sample ana_extra \<and>
      post_raiz zod_sample (spec_store None) ana fresh_world =
        post_raiz zod_sample (spec_store None) ana_extra fresh_world"
    unfolding ana_def ana_extra_def
    by (intro only_three_fields_matter) simp_all
  ultimately show ?thesis by blast
qed

end
